theory Spec2Isabelle
  imports Main "HOL-Library.AList"
begin

section \<open>Room session manager of the realtime code editor (backend/index.js)\<close>

text \<open>
  The server keeps four pieces of state: the process-wide \<^verbatim>\<open>activeRooms\<close> map
  (room id to the set of user names), the closure variables \<^verbatim>\<open>currentRoom\<close> and
  \<^verbatim>\<open>currentUser\<close> of every connection, the room registry of the socket.io adapter
  (which socket is in which room) and the MongoDB collection of \<^verbatim>\<open>Room\<close> documents.
  Every event handler is a function from the state before to the state after, the
  messages it emits (in order) and the console lines it prints.

  A handler is modelled as one uninterrupted run: what other handlers do while this one
  waits at an \<^verbatim>\<open>await\<close> is not part of the model. Whether a call to the store throws
  is an input of the handler (an \<open>outcome\<close> per call), and so is the clock.
\<close>

subsection \<open>JavaScript values\<close>

text \<open>
  Payload fields are not validated anywhere in the handlers, so a room id or a user name
  is whatever the client sent: a string, or \<^verbatim>\<open>undefined\<close> when the field is missing.
  The closure variables start as \<^verbatim>\<open>null\<close>.
\<close>

datatype jsval = Undefined | Null | Str string

text \<open>JavaScript truthiness, as in \<^verbatim>\<open>if (currentRoom)\<close>: the empty string is falsy.\<close>

fun truthy :: "jsval \<Rightarrow> bool" where
  "truthy Undefined = False"
| "truthy Null = False"
| "truthy (Str s) = (s \<noteq> [])"

datatype exn = TypeError | ValidationError | StoreError

text \<open>\<^verbatim>\<open>code.length\<close>: a TypeError on \<^verbatim>\<open>undefined\<close> and \<^verbatim>\<open>null\<close>.\<close>

fun js_length :: "jsval \<Rightarrow> exn + nat" where
  "js_length (Str s) = Inr (length s)"
| "js_length Undefined = Inl TypeError"
| "js_length Null = Inl TypeError"

subsection \<open>The presence table: a Map of Sets, both in insertion order\<close>

type_synonym user_set = "jsval list"
type_synonym presence = "(jsval \<times> user_set) list"

text \<open>\<^verbatim>\<open>Set.prototype.add\<close> appends a new element, \<^verbatim>\<open>delete\<close> removes it.\<close>

definition Set_add :: "jsval \<Rightarrow> user_set \<Rightarrow> user_set" where
  "Set_add u us = (if u \<in> set us then us else us @ [u])"

definition Set_delete :: "jsval \<Rightarrow> user_set \<Rightarrow> user_set" where
  "Set_delete u us = removeAll u us"

definition Map_has :: "presence \<Rightarrow> jsval \<Rightarrow> bool" where
  "Map_has m k = (map_of m k \<noteq> None)"

text \<open>
  \<^verbatim>\<open>Array.from(activeRooms.get(k))\<close>. Every call in the handlers follows a
  \<^verbatim>\<open>has(k)\<close> test or a \<^verbatim>\<open>set(k, ...)\<close> of the same run, so the entry is there;
  the value for a missing entry is never used.
\<close>

definition Array_from_get :: "presence \<Rightarrow> jsval \<Rightarrow> jsval list" where
  "Array_from_get m k = (case map_of m k of Some us \<Rightarrow> us | None \<Rightarrow> [])"

text \<open>\<^verbatim>\<open>activeRooms.get(k).add(u)\<close> and \<^verbatim>\<open>activeRooms.get(k).delete(u)\<close>
  change the set stored under \<open>k\<close> in place.\<close>

definition get_add :: "jsval \<Rightarrow> jsval \<Rightarrow> presence \<Rightarrow> presence" where
  "get_add k u m = AList.map_entry k (Set_add u) m"

definition get_delete :: "jsval \<Rightarrow> jsval \<Rightarrow> presence \<Rightarrow> presence" where
  "get_delete k u m = AList.map_entry k (Set_delete u) m"

text \<open>\<^verbatim>\<open>if (!activeRooms.has(k)) activeRooms.set(k, new Set())\<close>.\<close>

definition ensure_entry :: "jsval \<Rightarrow> presence \<Rightarrow> presence" where
  "ensure_entry k m = (if \<not> Map_has m k then AList.update k [] m else m)"

subsection \<open>The transport: sockets, rooms and emitting\<close>

type_synonym sid = string

text \<open>The adapter's registry, as the pairs (socket, room) in the order of joining.\<close>

type_synonym registry = "(sid \<times> jsval) list"

definition socket_join :: "sid \<Rightarrow> jsval \<Rightarrow> registry \<Rightarrow> registry" where
  "socket_join s r reg = (if (s, r) \<in> set reg then reg else reg @ [(s, r)])"

definition socket_leave :: "sid \<Rightarrow> jsval \<Rightarrow> registry \<Rightarrow> registry" where
  "socket_leave s r reg = removeAll (s, r) reg"

definition room_members :: "registry \<Rightarrow> jsval \<Rightarrow> sid list" where
  "room_members reg r = map fst (filter (\<lambda>p. snd p = r) reg)"

datatype event = CodeUpdate | LanguageUpdate | UserJoined | UserTyping | ErrorEvent

datatype payload = Val jsval | Arr "jsval list"

datatype message = Emit (recipient: sid) (event: event) (payload: payload)

text \<open>\<^verbatim>\<open>socket.emit\<close>, \<^verbatim>\<open>io.to(room).emit\<close> and \<^verbatim>\<open>socket.to(room).emit\<close>.\<close>

definition socket_emit :: "sid \<Rightarrow> event \<Rightarrow> payload \<Rightarrow> message list" where
  "socket_emit s e p = [Emit s e p]"

definition io_to_emit :: "registry \<Rightarrow> jsval \<Rightarrow> event \<Rightarrow> payload \<Rightarrow> message list" where
  "io_to_emit reg r e p = map (\<lambda>s. Emit s e p) (room_members reg r)"

definition socket_to_emit :: "registry \<Rightarrow> sid \<Rightarrow> jsval \<Rightarrow> event \<Rightarrow> payload \<Rightarrow> message list" where
  "socket_to_emit reg sender r e p =
     map (\<lambda>s. Emit s e p) (filter (\<lambda>s. s \<noteq> sender) (room_members reg r))"

subsection \<open>The document store: the Room model (models/Room.js)\<close>

record room =
  roomId :: jsval
  code :: jsval
  language :: jsval
  createdAt :: nat
  lastModified :: nat
  activeUsers :: "jsval list"

type_synonym store = "jsval \<rightharpoonup> room"

datatype outcome = Succeeds | Throws

text \<open>The schema's defaults, for a document created at time \<open>now\<close>.\<close>

definition schema_defaults :: "jsval \<Rightarrow> nat \<Rightarrow> room" where
  "schema_defaults k now =
     \<lparr>roomId = k, code = Str [], language = Str ''javascript'',
      createdAt = now, lastModified = now, activeUsers = []\<rparr>"

text \<open>\<^verbatim>\<open>Room.findOne({ roomId })\<close>.\<close>

definition Room_findOne :: "outcome \<Rightarrow> store \<Rightarrow> jsval \<Rightarrow> exn + room option" where
  "Room_findOne oc d k = (case oc of Throws \<Rightarrow> Inl StoreError | Succeeds \<Rightarrow> Inr (d k))"

text \<open>\<^verbatim>\<open>room.save()\<close>: the schema requires \<^verbatim>\<open>roomId\<close>, a non-empty string.\<close>

definition Room_save :: "outcome \<Rightarrow> room \<Rightarrow> store \<Rightarrow> exn + store" where
  "Room_save oc r d =
     (if \<not> truthy (roomId r) then Inl ValidationError
      else case oc of Throws \<Rightarrow> Inl StoreError | Succeeds \<Rightarrow> Inr (d(roomId r \<mapsto> r)))"

text \<open>\<^verbatim>\<open>Room.findOneAndUpdate(filter, update)\<close>: without \<^verbatim>\<open>upsert\<close> a missing
  document stays missing.\<close>

definition Room_findOneAndUpdate :: "outcome \<Rightarrow> jsval \<Rightarrow> (room \<Rightarrow> room) \<Rightarrow> store \<Rightarrow> exn + store" where
  "Room_findOneAndUpdate oc k upd d =
     (case oc of
        Throws \<Rightarrow> Inl StoreError
      | Succeeds \<Rightarrow> Inr (case d k of None \<Rightarrow> d | Some r \<Rightarrow> d(k \<mapsto> upd r)))"

text \<open>With \<^verbatim>\<open>{ upsert: true, new: true }\<close> a missing document is created from the
  filter, the update and the schema's defaults.\<close>

definition Room_findOneAndUpdate_upsert ::
    "outcome \<Rightarrow> jsval \<Rightarrow> (room \<Rightarrow> room) \<Rightarrow> nat \<Rightarrow> store \<Rightarrow> exn + store" where
  "Room_findOneAndUpdate_upsert oc k upd now d =
     (case oc of
        Throws \<Rightarrow> Inl StoreError
      | Succeeds \<Rightarrow>
          Inr (case d k of
                 None \<Rightarrow> d(k \<mapsto> upd (schema_defaults k now))
               | Some r \<Rightarrow> d(k \<mapsto> upd r)))"

text \<open>
  An update document: a key whose value is \<^verbatim>\<open>undefined\<close> is dropped from the
  update, so the stored field keeps its value.
\<close>

definition set_code :: "jsval \<Rightarrow> room \<Rightarrow> room" where
  "set_code v r = (if v = Undefined then r else r\<lparr>code := v\<rparr>)"

definition set_language :: "jsval \<Rightarrow> room \<Rightarrow> room" where
  "set_language v r = (if v = Undefined then r else r\<lparr>language := v\<rparr>)"

subsection \<open>The server state and what a handler produces\<close>

record session =
  currentRoom :: jsval
  currentUser :: jsval

record server =
  activeRooms :: presence
  sessions :: "sid \<Rightarrow> session"
  registry :: registry
  db :: store

datatype console_line =
    LogCleanedUp jsval
  | LogUserConnected sid
  | ErrUpdatingPreviousRoom exn
  | LogCreatedRoom jsval
  | LogJoinedExistingRoom jsval
  | LogUserJoinedRoom jsval jsval
  | ErrJoiningRoom exn
  | LogCodeSaved jsval nat
  | ErrSavingCode exn
  | LogLanguageChanged jsval jsval
  | ErrUpdatingLanguage exn
  | LogUserLeft jsval jsval
  | ErrLeavingRoom exn
  | LogDisconnectedFromRoom jsval jsval
  | ErrHandlingDisconnect exn
  | LogUserDisconnected sid

record result =
  after :: server
  emitted :: "message list"
  console :: "console_line list"

text \<open>
  A handler with a payload destructures its argument, \<^verbatim>\<open>({ roomId, code }) => ...\<close>,
  before its \<^verbatim>\<open>try\<close> block: an event sent with no argument (or \<^verbatim>\<open>null\<close>) throws a
  TypeError that nothing catches. An argument that is an object gives each field,
  \<^verbatim>\<open>undefined\<close> when it is missing.
\<close>

datatype fault = Unhandled exn

subsection \<open>cleanupEmptyRooms (index.js 33-40)\<close>

text \<open>The loop over \<^verbatim>\<open>activeRooms.entries()\<close>: the entries still to visit, the map
  as it is now, and the lines printed so far.\<close>

fun cleanup_loop :: "presence \<Rightarrow> presence \<Rightarrow> console_line list \<Rightarrow> presence \<times> console_line list" where
  "cleanup_loop [] m ls = (m, ls)"
| "cleanup_loop ((rid, users) # rest) m ls =
     (if length users = 0
      then cleanup_loop rest (AList.delete rid m) (ls @ [LogCleanedUp rid])
      else cleanup_loop rest m ls)"

definition cleanupEmptyRooms :: "server \<Rightarrow> result" where
  "cleanupEmptyRooms st =
     (let (m, ls) = cleanup_loop (activeRooms st) (activeRooms st) []
      in \<lparr>after = st\<lparr>activeRooms := m\<rparr>, emitted = [], console = ls\<rparr>)"

subsection \<open>connection (index.js 45-49)\<close>

text \<open>A new socket is in the room named by its own id; its closure variables are
  \<^verbatim>\<open>null\<close>.\<close>

definition connection :: "sid \<Rightarrow> server \<Rightarrow> result" where
  "connection s st =
     \<lparr>after = st\<lparr>sessions := (sessions st)(s := \<lparr>currentRoom = Null, currentUser = Null\<rparr>),
                  registry := socket_join s (Str s) (registry st)\<rparr>,
      emitted = [],
      console = [LogUserConnected s]\<rparr>"

subsection \<open>join (index.js 51-121)\<close>

text \<open>Lines 54-70: leave the previous room, if there is one.\<close>

definition leave_previous :: "sid \<Rightarrow> outcome \<Rightarrow> server \<Rightarrow> result" where
  "leave_previous s oc_prev st =
     (let cr = currentRoom (sessions st s); cu = currentUser (sessions st s) in
      if truthy cr then
        (let st1 = st\<lparr>registry := socket_leave s cr (registry st)\<rparr> in
         if Map_has (activeRooms st1) cr then
           (let st2 = st1\<lparr>activeRooms := get_delete cr cu (activeRooms st1)\<rparr>;
                out = io_to_emit (registry st2) cr UserJoined
                        (Arr (Array_from_get (activeRooms st2) cr))
            in case Room_findOneAndUpdate oc_prev cr
                      (\<lambda>r. r\<lparr>activeUsers := Array_from_get (activeRooms st2) cr\<rparr>) (db st2) of
                 Inl e \<Rightarrow> \<lparr>after = st2, emitted = out, console = [ErrUpdatingPreviousRoom e]\<rparr>
               | Inr d \<Rightarrow> \<lparr>after = st2\<lparr>db := d\<rparr>, emitted = out, console = []\<rparr>)
         else \<lparr>after = st1, emitted = [], console = []\<rparr>)
      else \<lparr>after = st, emitted = [], console = []\<rparr>)"

text \<open>Lines 72-80: the assignments, \<^verbatim>\<open>socket.join\<close> and the registration in the
  presence table.\<close>

definition register_user :: "sid \<Rightarrow> jsval \<Rightarrow> jsval \<Rightarrow> server \<Rightarrow> server" where
  "register_user s rid userName st =
     st\<lparr>sessions := (sessions st)(s := \<lparr>currentRoom = rid, currentUser = userName\<rparr>),
        registry := socket_join s rid (registry st),
        activeRooms := get_add rid userName (ensure_entry rid (activeRooms st))\<rparr>"

text \<open>Lines 110-120: the catch block. \<open>r\<close> is the run up to the exception.\<close>

definition join_catch :: "sid \<Rightarrow> jsval \<Rightarrow> jsval \<Rightarrow> exn \<Rightarrow> result \<Rightarrow> result" where
  "join_catch s rid userName e r =
     (let st = after r;
          st1 = st\<lparr>activeRooms := get_add rid userName (ensure_entry rid (activeRooms st))\<rparr>
      in \<lparr>after = st1,
          emitted = emitted r @ socket_emit s ErrorEvent (Val (Str ''Failed to join room''))
                      @ io_to_emit (registry st1) rid UserJoined
                          (Arr (Array_from_get (activeRooms st1) rid)),
          console = console r @ [ErrJoiningRoom e]\<rparr>)"

text \<open>Lines 82-108, after a save that did not throw.\<close>

definition join_finish :: "sid \<Rightarrow> jsval \<Rightarrow> jsval \<Rightarrow> room \<Rightarrow> console_line \<Rightarrow> result \<Rightarrow> result" where
  "join_finish s rid userName rm line r =
     (let st = after r in
      \<lparr>after = st,
       emitted = emitted r @ socket_emit s CodeUpdate (Val (code rm))
                   @ socket_emit s LanguageUpdate (Val (language rm))
                   @ io_to_emit (registry st) rid UserJoined
                       (Arr (Array_from_get (activeRooms st) rid)),
       console = console r @ [line, LogUserJoinedRoom userName rid]\<rparr>)"

definition join :: "sid \<Rightarrow> jsval \<Rightarrow> jsval \<Rightarrow> nat \<Rightarrow> outcome \<Rightarrow> outcome \<Rightarrow> outcome \<Rightarrow> server \<Rightarrow> result" where
  "join s rid userName now oc_prev oc_find oc_save st =
     (let r0 = leave_previous s oc_prev st;
          st1 = register_user s rid userName (after r0);
          r1 = r0\<lparr>after := st1\<rparr>
      in case Room_findOne oc_find (db st1) rid of
           Inl e \<Rightarrow> join_catch s rid userName e r1
         | Inr None \<Rightarrow>
             (let rm = (schema_defaults rid now)
                         \<lparr>code := Str [], language := Str ''javascript'',
                          activeUsers := Array_from_get (activeRooms st1) rid\<rparr>
              in case Room_save oc_save rm (db st1) of
                   Inl e \<Rightarrow> join_catch s rid userName e r1
                 | Inr d \<Rightarrow>
                     join_finish s rid userName rm (LogCreatedRoom rid) (r1\<lparr>after := st1\<lparr>db := d\<rparr>\<rparr>))
         | Inr (Some found) \<Rightarrow>
             (let rm = found\<lparr>activeUsers := Array_from_get (activeRooms st1) rid\<rparr>
              in case Room_save oc_save rm (db st1) of
                   Inl e \<Rightarrow> join_catch s rid userName e r1
                 | Inr d \<Rightarrow>
                     join_finish s rid userName rm (LogJoinedExistingRoom rid)
                       (r1\<lparr>after := st1\<lparr>db := d\<rparr>\<rparr>)))"

definition on_join ::
    "sid \<Rightarrow> (jsval \<times> jsval) option \<Rightarrow> nat \<Rightarrow> outcome \<Rightarrow> outcome \<Rightarrow> outcome \<Rightarrow> server \<Rightarrow> fault + result" where
  "on_join s arg now oc_prev oc_find oc_save st =
     (case arg of
        None \<Rightarrow> Inl (Unhandled TypeError)
      | Some (rid, userName) \<Rightarrow> Inr (join s rid userName now oc_prev oc_find oc_save st))"

subsection \<open>codeChange (index.js 123-143)\<close>

definition codeChange :: "sid \<Rightarrow> jsval \<Rightarrow> jsval \<Rightarrow> nat \<Rightarrow> outcome \<Rightarrow> server \<Rightarrow> result" where
  "codeChange s rid newCode now oc st =
     (let tried =
            (case Room_findOneAndUpdate_upsert oc rid
                    (\<lambda>r. (set_code newCode r)\<lparr>lastModified := now\<rparr>) now (db st) of
               Inl e \<Rightarrow> (st, [ErrSavingCode e])
             | Inr d \<Rightarrow>
                 (case js_length newCode of
                    Inl e \<Rightarrow> (st\<lparr>db := d\<rparr>, [ErrSavingCode e])
                  | Inr n \<Rightarrow> (st\<lparr>db := d\<rparr>, [LogCodeSaved rid n])))
      in \<lparr>after = fst tried,
          emitted = socket_to_emit (registry (fst tried)) s rid CodeUpdate (Val newCode),
          console = snd tried\<rparr>)"

definition on_codeChange ::
    "sid \<Rightarrow> (jsval \<times> jsval) option \<Rightarrow> nat \<Rightarrow> outcome \<Rightarrow> server \<Rightarrow> fault + result" where
  "on_codeChange s arg now oc st =
     (case arg of
        None \<Rightarrow> Inl (Unhandled TypeError)
      | Some (rid, newCode) \<Rightarrow> Inr (codeChange s rid newCode now oc st))"

subsection \<open>languageChange (index.js 145-165)\<close>

definition languageChange :: "sid \<Rightarrow> jsval \<Rightarrow> jsval \<Rightarrow> nat \<Rightarrow> outcome \<Rightarrow> server \<Rightarrow> result" where
  "languageChange s rid lang now oc st =
     (let tried =
            (case Room_findOneAndUpdate_upsert oc rid
                    (\<lambda>r. (set_language lang r)\<lparr>lastModified := now\<rparr>) now (db st) of
               Inl e \<Rightarrow> (st, [ErrUpdatingLanguage e])
             | Inr d \<Rightarrow> (st\<lparr>db := d\<rparr>, [LogLanguageChanged lang rid]))
      in \<lparr>after = fst tried,
          emitted = io_to_emit (registry (fst tried)) rid LanguageUpdate (Val lang),
          console = snd tried\<rparr>)"

definition on_languageChange ::
    "sid \<Rightarrow> (jsval \<times> jsval) option \<Rightarrow> nat \<Rightarrow> outcome \<Rightarrow> server \<Rightarrow> fault + result" where
  "on_languageChange s arg now oc st =
     (case arg of
        None \<Rightarrow> Inl (Unhandled TypeError)
      | Some (rid, lang) \<Rightarrow> Inr (languageChange s rid lang now oc st))"

subsection \<open>leaveRoom (index.js 167-193)\<close>

text \<open>
  The store is updated inside the \<^verbatim>\<open>try\<close> block and before the broadcast: when it
  throws, control goes to the catch block, which only prints.
\<close>

definition leaveRoom :: "sid \<Rightarrow> outcome \<Rightarrow> server \<Rightarrow> result" where
  "leaveRoom s oc st =
     (let cr = currentRoom (sessions st s); cu = currentUser (sessions st s) in
      if truthy cr \<and> truthy cu then
        (if Map_has (activeRooms st) cr then
           (let st1 = st\<lparr>activeRooms := get_delete cr cu (activeRooms st)\<rparr> in
            case Room_findOneAndUpdate oc cr
                   (\<lambda>r. r\<lparr>activeUsers := Array_from_get (activeRooms st1) cr\<rparr>) (db st1) of
              Inl e \<Rightarrow> \<lparr>after = st1, emitted = [], console = [ErrLeavingRoom e]\<rparr>
            | Inr d \<Rightarrow>
                (let st2 = st1\<lparr>db := d\<rparr>;
                     out = io_to_emit (registry st2) cr UserJoined
                             (Arr (Array_from_get (activeRooms st2) cr))
                 in \<lparr>after = st2\<lparr>registry := socket_leave s cr (registry st2),
                                 sessions := (sessions st2)
                                   (s := \<lparr>currentRoom = Null, currentUser = Null\<rparr>)\<rparr>,
                     emitted = out,
                     console = [LogUserLeft cu cr]\<rparr>))
         else
           \<lparr>after = st\<lparr>registry := socket_leave s cr (registry st),
                       sessions := (sessions st)(s := \<lparr>currentRoom = Null, currentUser = Null\<rparr>)\<rparr>,
            emitted = [],
            console = [LogUserLeft cu cr]\<rparr>)
      else \<lparr>after = st, emitted = [], console = []\<rparr>)"

subsection \<open>typing (index.js 195-197)\<close>

definition typing :: "sid \<Rightarrow> jsval \<Rightarrow> jsval \<Rightarrow> server \<Rightarrow> result" where
  "typing s rid userName st =
     \<lparr>after = st,
      emitted = socket_to_emit (registry st) s rid UserTyping (Val userName),
      console = []\<rparr>"

definition on_typing :: "sid \<Rightarrow> (jsval \<times> jsval) option \<Rightarrow> server \<Rightarrow> fault + result" where
  "on_typing s arg st =
     (case arg of
        None \<Rightarrow> Inl (Unhandled TypeError)
      | Some (rid, userName) \<Rightarrow> Inr (typing s rid userName st))"

subsection \<open>disconnect (index.js 199-222)\<close>

text \<open>
  The transport takes a closing socket out of every room before it fires the
  \<^verbatim>\<open>disconnect\<close> event.
\<close>

definition transport_close :: "sid \<Rightarrow> server \<Rightarrow> server" where
  "transport_close s st = st\<lparr>registry := filter (\<lambda>p. fst p \<noteq> s) (registry st)\<rparr>"

text \<open>The handler itself: as \<open>leaveRoom\<close>, without \<^verbatim>\<open>socket.leave\<close> and without
  the two assignments of \<^verbatim>\<open>null\<close>.\<close>

definition disconnect_handler :: "sid \<Rightarrow> outcome \<Rightarrow> server \<Rightarrow> result" where
  "disconnect_handler s oc st =
     (let cr = currentRoom (sessions st s); cu = currentUser (sessions st s) in
      if truthy cr \<and> truthy cu then
        (if Map_has (activeRooms st) cr then
           (let st1 = st\<lparr>activeRooms := get_delete cr cu (activeRooms st)\<rparr> in
            case Room_findOneAndUpdate oc cr
                   (\<lambda>r. r\<lparr>activeUsers := Array_from_get (activeRooms st1) cr\<rparr>) (db st1) of
              Inl e \<Rightarrow>
                \<lparr>after = st1, emitted = [],
                 console = [ErrHandlingDisconnect e, LogUserDisconnected s]\<rparr>
            | Inr d \<Rightarrow>
                (let st2 = st1\<lparr>db := d\<rparr> in
                 \<lparr>after = st2,
                  emitted = io_to_emit (registry st2) cr UserJoined
                              (Arr (Array_from_get (activeRooms st2) cr)),
                  console = [LogDisconnectedFromRoom cu cr, LogUserDisconnected s]\<rparr>))
         else
           \<lparr>after = st, emitted = [],
            console = [LogDisconnectedFromRoom cu cr, LogUserDisconnected s]\<rparr>)
      else \<lparr>after = st, emitted = [], console = [LogUserDisconnected s]\<rparr>)"

definition disconnect :: "sid \<Rightarrow> outcome \<Rightarrow> server \<Rightarrow> result" where
  "disconnect s oc st = disconnect_handler s oc (transport_close s st)"

subsection \<open>A running example\<close>

text \<open>The server at start, and the room \<^verbatim>\<open>room1\<close> with alice on socket \<^verbatim>\<open>s1\<close> and
  bob on socket \<^verbatim>\<open>s2\<close>.\<close>

definition initial :: server where
  "initial =
     \<lparr>activeRooms = [],
      sessions = (\<lambda>_. \<lparr>currentRoom = Null, currentUser = Null\<rparr>),
      registry = [],
      db = Map.empty\<rparr>"

definition alice_and_bob :: server where
  "alice_and_bob =
     after (join ''s2'' (Str ''room1'') (Str ''bob'') 2 Succeeds Succeeds Succeeds
       (after (join ''s1'' (Str ''room1'') (Str ''alice'') 1 Succeeds Succeeds Succeeds
         (after (connection ''s2'' (after (connection ''s1'' initial)))))))"


subsection \<open>Facts about the containers\<close>

lemma set_room_members: "x \<in> set (room_members reg r) \<longleftrightarrow> (x, r) \<in> set reg"
  by (auto simp: room_members_def image_iff)

lemma room_members_socket_leave:
  "room_members (socket_leave s r reg) r = filter (\<lambda>x. x \<noteq> s) (room_members reg r)"
  by (induction reg) (auto simp: room_members_def socket_leave_def)

lemma in_registry_socket_join: "(s, r) \<in> set (socket_join s r reg)"
  by (simp add: socket_join_def)

lemma Array_from_get_get_delete:
  "Array_from_get (get_delete k u m) k = removeAll u (Array_from_get m k)"
  by (simp add: Array_from_get_def get_delete_def Set_delete_def map_of_map_entry
      split: option.splits)

lemma Map_has_ensure_entry: "Map_has (ensure_entry k m) k"
  by (simp add: ensure_entry_def Map_has_def update_conv')

lemma Array_from_get_get_add:
  "Map_has m k \<Longrightarrow> Array_from_get (get_add k u m) k = Set_add u (Array_from_get m k)"
  by (auto simp: Array_from_get_def get_add_def Map_has_def map_of_map_entry)

lemma Map_has_registered: "Map_has (get_add k u (ensure_entry k m)) k"
  using Map_has_ensure_entry [of k m]
  by (simp add: Map_has_def get_add_def map_of_map_entry split: option.splits)

lemma registered_in_snapshot:
  "u \<in> set (Array_from_get (get_add k u (ensure_entry k m)) k)"
  by (simp add: Array_from_get_get_add Map_has_ensure_entry Set_add_def)

lemma cleanup_loop_fst:
  "fst (cleanup_loop es m ls) = filter (\<lambda>p. (fst p, []) \<notin> set es) m"
proof (induction es arbitrary: m ls)
  case Nil
  then show ?case by simp
next
  case (Cons e es)
  obtain rid users where e: "e = (rid, users)" by (cases e)
  show ?case
  proof (cases "users = []")
    case True
    have "AList.delete rid m = filter (\<lambda>p. fst p \<noteq> rid) m"
      by (induction m) auto
    with True e Cons.IH show ?thesis
      by (auto intro: filter_cong)
  next
    case False
    with e Cons.IH show ?thesis by auto
  qed
qed

lemma empty_entry_iff:
  assumes "distinct (map fst m)" "p \<in> set m"
  shows "(fst p, []) \<in> set m \<longleftrightarrow> snd p = []"
proof -
  obtain k us where p: "p = (k, us)" by (cases p)
  with assms have "map_of m k = Some us" by simp
  moreover from assms(1) have "(k, []) \<in> set m \<longleftrightarrow> map_of m k = Some []" by simp
  ultimately show ?thesis using p by auto
qed

lemma cleanup_loop_all:
  assumes "distinct (map fst m)"
  shows "fst (cleanup_loop m m ls) = filter (\<lambda>p. snd p \<noteq> []) m"
  unfolding cleanup_loop_fst
  by (rule filter_cong) (simp_all add: empty_entry_iff [OF assms])


subsection \<open>The running example, evaluated\<close>

lemmas handler_defs =
  leave_previous_def register_user_def join_catch_def join_finish_def
  Room_findOne_def Room_save_def Room_findOneAndUpdate_def Room_findOneAndUpdate_upsert_def
  schema_defaults_def socket_join_def socket_leave_def io_to_emit_def socket_emit_def
  socket_to_emit_def room_members_def Array_from_get_def get_add_def get_delete_def
  ensure_entry_def Map_has_def Set_add_def Set_delete_def Let_def

lemma example_presence:
  "activeRooms alice_and_bob = [(Str ''room1'', [Str ''alice'', Str ''bob''])]"
  by (simp add: alice_and_bob_def join_def connection_def initial_def handler_defs)

lemma example_registry:
  "registry alice_and_bob =
     [(''s1'', Str ''s1''), (''s2'', Str ''s2''), (''s1'', Str ''room1''), (''s2'', Str ''room1'')]"
  by (simp add: alice_and_bob_def join_def connection_def initial_def handler_defs)

lemma example_session_s1:
  "sessions alice_and_bob ''s1'' = \<lparr>currentRoom = Str ''room1'', currentUser = Str ''alice''\<rparr>"
  by (simp add: alice_and_bob_def join_def connection_def initial_def handler_defs)

lemma example_session_s2:
  "sessions alice_and_bob ''s2'' = \<lparr>currentRoom = Str ''room1'', currentUser = Str ''bob''\<rparr>"
  by (simp add: alice_and_bob_def join_def connection_def initial_def handler_defs)

lemma example_db:
  "db alice_and_bob (Str ''room1'') =
     Some \<lparr>roomId = Str ''room1'', code = Str [], language = Str ''javascript'',
           createdAt = 1, lastModified = 1, activeUsers = [Str ''alice'', Str ''bob'']\<rparr>"
  by (simp add: alice_and_bob_def join_def connection_def initial_def handler_defs)

lemmas example = example_presence example_registry example_session_s1 example_session_s2 example_db

subsection \<open>The idle room reaper\<close>

text \<open>
  C8. Each run of the idle room reaper deletes exactly the presence entries whose user
  set is empty: what is left is the table without its empty entries, every other entry
  as it was and in the same order. The durable records, the sessions and the room
  registry are not touched, and nothing is emitted. (The keys of a Map are distinct.)
\<close>

theorem cleanupEmptyRooms_removes_empty_entries:
  assumes "distinct (map fst (activeRooms st))"
  shows "activeRooms (after (cleanupEmptyRooms st)) = filter (\<lambda>p. snd p \<noteq> []) (activeRooms st)
       \<and> db (after (cleanupEmptyRooms st)) = db st
       \<and> sessions (after (cleanupEmptyRooms st)) = sessions st
       \<and> registry (after (cleanupEmptyRooms st)) = registry st
       \<and> emitted (cleanupEmptyRooms st) = []"
  using cleanup_loop_all [OF assms, of "[]"]
  by (simp add: cleanupEmptyRooms_def split_def)

theorem cleanupEmptyRooms_removes_empty_entries_witness:
  "distinct (map fst [(Str ''A'', []), (Str ''B'', [Str ''u1''])])
   \<and> activeRooms (after (cleanupEmptyRooms
        (initial\<lparr>activeRooms := [(Str ''A'', []), (Str ''B'', [Str ''u1''])]\<rparr>)))
      = [(Str ''B'', [Str ''u1''])]
   \<and> db (after (cleanupEmptyRooms
        (initial\<lparr>activeRooms := [(Str ''A'', []), (Str ''B'', [Str ''u1''])]\<rparr>))) = db initial"
  using cleanupEmptyRooms_removes_empty_entries
    [of "initial\<lparr>activeRooms := [(Str ''A'', []), (Str ''B'', [Str ''u1''])]\<rparr>"]
  by simp

subsection \<open>The keys of the presence table stay distinct\<close>

lemma distinct_keys_get_add: "distinct (map fst m) \<Longrightarrow> distinct (map fst (get_add k u m))"
  by (simp add: get_add_def distinct_map_entry)

lemma distinct_keys_get_delete: "distinct (map fst m) \<Longrightarrow> distinct (map fst (get_delete k u m))"
  by (simp add: get_delete_def distinct_map_entry)

lemma distinct_keys_ensure_entry: "distinct (map fst m) \<Longrightarrow> distinct (map fst (ensure_entry k m))"
  by (simp add: ensure_entry_def distinct_update)

lemma distinct_keys_initial: "distinct (map fst (activeRooms initial))"
  by (simp add: initial_def)

lemma distinct_keys_leave_previous:
  "distinct (map fst (activeRooms st)) \<Longrightarrow>
   distinct (map fst (activeRooms (after (leave_previous s oc st))))"
  by (simp add: leave_previous_def Let_def distinct_keys_get_delete split: sum.splits)

lemma distinct_keys_join:
  assumes "distinct (map fst (activeRooms st))"
  shows "distinct (map fst (activeRooms (after (join s rid userName now oc_prev oc_find oc_save st))))"
  using distinct_keys_leave_previous [OF assms, of s oc_prev]
  by (simp add: join_def join_catch_def join_finish_def register_user_def Let_def
      distinct_keys_get_add distinct_keys_ensure_entry split: sum.splits option.splits)

lemma distinct_keys_leaving:
  assumes "distinct (map fst (activeRooms st))"
  shows "distinct (map fst (activeRooms (after (leaveRoom s oc st))))"
    and "distinct (map fst (activeRooms (after (disconnect s oc st))))"
  using assms
  by (simp_all add: leaveRoom_def disconnect_def disconnect_handler_def transport_close_def
      Let_def distinct_keys_get_delete split: sum.splits)

lemma distinct_keys_cleanup:
  assumes "distinct (map fst (activeRooms st))"
  shows "distinct (map fst (activeRooms (after (cleanupEmptyRooms st))))"
  using assms cleanup_loop_all [OF assms, of "[]"]
  by (simp add: cleanupEmptyRooms_def split_def distinct_map_filter)

lemma presence_untouched:
  "activeRooms (after (languageChange s rid lang now oc st)) = activeRooms st"
  "activeRooms (after (connection s st)) = activeRooms st"
  by (simp_all add: languageChange_def connection_def Room_findOneAndUpdate_upsert_def Let_def
      split: sum.splits outcome.splits)

subsection \<open>Edits and typing\<close>

text \<open>
  C10. The codeChange and typing handlers never change the presence table: the whole
  \<^verbatim>\<open>activeRooms\<close> map is the same before and after, whatever the payload, the sender
  and the outcome of the store call. An event with no payload object faults before the
  handler does anything.
\<close>

theorem codeChange_typing_keep_presence:
  "activeRooms (after (codeChange s rid newCode now oc st)) = activeRooms st
   \<and> activeRooms (after (typing s rid' userName st)) = activeRooms st
   \<and> (case on_codeChange s arg now oc st of
         Inl f \<Rightarrow> arg = None
       | Inr r \<Rightarrow> activeRooms (after r) = activeRooms st)
   \<and> (case on_typing s arg' st of
         Inl f \<Rightarrow> arg' = None
       | Inr r \<Rightarrow> activeRooms (after r) = activeRooms st)"
  by (simp add: codeChange_def typing_def on_codeChange_def on_typing_def
      Room_findOneAndUpdate_upsert_def Let_def
      split: option.splits prod.splits sum.splits outcome.splits)

text \<open>
  C3. For every edit, whether the upsert of the store succeeds or throws, the handler
  returns and emits \<^verbatim>\<open>codeUpdate\<close> with the new code to exactly the sockets of the room
  other than the sender: every other socket of the room gets it, and no message at all
  goes to the sender.
\<close>

theorem codeChange_broadcast_despite_store:
  "on_codeChange s (Some (rid, newCode)) now oc st = Inr (codeChange s rid newCode now oc st)
   \<and> emitted (codeChange s rid newCode now oc st)
       = map (\<lambda>x. Emit x CodeUpdate (Val newCode))
           (filter (\<lambda>x. x \<noteq> s) (room_members (registry st) rid))
   \<and> (\<forall>x. (x, rid) \<in> set (registry st) \<and> x \<noteq> s
          \<longrightarrow> Emit x CodeUpdate (Val newCode) \<in> set (emitted (codeChange s rid newCode now oc st)))
   \<and> (\<forall>m \<in> set (emitted (codeChange s rid newCode now oc st)). recipient m \<noteq> s)"
proof -
  have reg: "registry (after (codeChange s rid newCode now oc st)) = registry st"
    by (simp add: codeChange_def Room_findOneAndUpdate_upsert_def Let_def
        split: sum.splits outcome.splits)
  have out: "emitted (codeChange s rid newCode now oc st)
       = map (\<lambda>x. Emit x CodeUpdate (Val newCode))
           (filter (\<lambda>x. x \<noteq> s) (room_members (registry st) rid))"
    using reg by (simp add: codeChange_def socket_to_emit_def Let_def)
  show ?thesis
    unfolding out by (auto simp: on_codeChange_def set_room_members)
qed

theorem codeChange_broadcast_despite_store_witness:
  "(''s2'', Str ''room1'') \<in> set (registry alice_and_bob) \<and> ''s2'' \<noteq> ''s1''
   \<and> emitted (codeChange ''s1'' (Str ''room1'') (Str ''hello'') 3 Throws alice_and_bob)
       = [Emit ''s2'' CodeUpdate (Val (Str ''hello''))]
   \<and> Emit ''s2'' CodeUpdate (Val (Str ''hello''))
       \<in> set (emitted (codeChange ''s1'' (Str ''room1'') (Str ''hello'') 3 Throws alice_and_bob))"
  using codeChange_broadcast_despite_store
    [of "''s1''" "Str ''room1''" "Str ''hello''" 3 Throws alice_and_bob]
  by (simp add: example room_members_def)

subsection \<open>Joining\<close>

lemma leave_previous_no_message_to_self:
  "m \<in> set (emitted (leave_previous s oc st)) \<Longrightarrow> recipient m \<noteq> s"
  by (auto simp: leave_previous_def Let_def io_to_emit_def room_members_socket_leave
      split: if_splits sum.splits)

lemma leave_previous_events:
  "m \<in> set (emitted (leave_previous s oc st)) \<Longrightarrow> event m = UserJoined"
  by (auto simp: leave_previous_def Let_def io_to_emit_def split: if_splits sum.splits)

lemma leave_previous_db_None:
  "db st k = None \<Longrightarrow> db (after (leave_previous s oc st)) k = None"
  by (auto simp: leave_previous_def Let_def Room_findOneAndUpdate_def
      split: if_splits sum.splits outcome.splits option.splits)

text \<open>The degraded path: the lookup or the save throws.\<close>

lemma join_degraded:
  assumes "oc_find = Throws \<or> oc_save = Throws"
  shows "\<exists>e. join s rid userName now oc_prev oc_find oc_save st
           = join_catch s rid userName e
               ((leave_previous s oc_prev st)
                  \<lparr>after := register_user s rid userName (after (leave_previous s oc_prev st))\<rparr>)"
  using assms
  by (auto simp: join_def Let_def Room_findOne_def Room_save_def
      split: sum.splits option.splits outcome.splits)

lemma join_catch_after:
  "activeRooms (after (join_catch s rid userName e r))
     = get_add rid userName (ensure_entry rid (activeRooms (after r)))"
  "registry (after (join_catch s rid userName e r)) = registry (after r)"
  "sessions (after (join_catch s rid userName e r)) = sessions (after r)"
  "db (after (join_catch s rid userName e r)) = db (after r)"
  by (simp_all add: join_catch_def Let_def)

lemma join_catch_emitted:
  "emitted (join_catch s rid userName e r)
     = emitted r @ [Emit s ErrorEvent (Val (Str ''Failed to join room''))]
         @ map (\<lambda>x. Emit x UserJoined
                  (Arr (Array_from_get
                     (get_add rid userName (ensure_entry rid (activeRooms (after r)))) rid)))
             (room_members (registry (after r)) rid)"
  by (simp add: join_catch_def Let_def socket_emit_def io_to_emit_def)


lemma join_created:
  assumes "db st rid = None" "truthy rid"
  shows "join s rid userName now oc_prev Succeeds Succeeds st
           = join_finish s rid userName
               ((schema_defaults rid now)
                  \<lparr>code := Str [], language := Str ''javascript'',
                   activeUsers := Array_from_get
                     (activeRooms (register_user s rid userName (after (leave_previous s oc_prev st)))) rid\<rparr>)
               (LogCreatedRoom rid)
               ((leave_previous s oc_prev st)
                  \<lparr>after := (register_user s rid userName (after (leave_previous s oc_prev st)))
                     \<lparr>db := (db (after (leave_previous s oc_prev st)))
                        (rid \<mapsto> (schema_defaults rid now)
                  \<lparr>code := Str [], language := Str ''javascript'',
                   activeUsers := Array_from_get
                     (activeRooms (register_user s rid userName (after (leave_previous s oc_prev st)))) rid\<rparr>)\<rparr>\<rparr>)"
  using assms leave_previous_db_None [OF assms(1), of s oc_prev]
  by (simp add: join_def Let_def Room_findOne_def Room_save_def register_user_def schema_defaults_def)

text \<open>
  C4. When the store cannot be reached during a join (the lookup or the save throws), the
  handler still returns: the user name is in the room's presence entry, the joining
  socket is in the room, every socket of the room is sent \<^verbatim>\<open>userJoined\<close> with the
  entry as it is in memory, and the joining socket is sent the error message.
\<close>

theorem join_store_unreachable:
  assumes "oc_find = Throws \<or> oc_save = Throws"
  shows "on_join s (Some (rid, userName)) now oc_prev oc_find oc_save st
           = Inr (join s rid userName now oc_prev oc_find oc_save st)
       \<and> userName \<in> set (Array_from_get
             (activeRooms (after (join s rid userName now oc_prev oc_find oc_save st))) rid)
       \<and> (s, rid) \<in> set (registry (after (join s rid userName now oc_prev oc_find oc_save st)))
       \<and> (\<forall>x. (x, rid) \<in> set (registry (after (join s rid userName now oc_prev oc_find oc_save st)))
            \<longrightarrow> Emit x UserJoined (Arr (Array_from_get
                   (activeRooms (after (join s rid userName now oc_prev oc_find oc_save st))) rid))
                  \<in> set (emitted (join s rid userName now oc_prev oc_find oc_save st)))
       \<and> Emit s ErrorEvent (Val (Str ''Failed to join room''))
            \<in> set (emitted (join s rid userName now oc_prev oc_find oc_save st))"
proof -
  let ?r = "(leave_previous s oc_prev st)
              \<lparr>after := register_user s rid userName (after (leave_previous s oc_prev st))\<rparr>"
  from join_degraded [OF assms] obtain e where
    J: "join s rid userName now oc_prev oc_find oc_save st = join_catch s rid userName e ?r"
    by blast
  have pres: "userName \<in> set (Array_from_get (activeRooms (after (join_catch s rid userName e ?r))) rid)"
    by (simp add: join_catch_after registered_in_snapshot)
  have reg: "registry (after (join_catch s rid userName e ?r))
               = socket_join s rid (registry (after (leave_previous s oc_prev st)))"
    by (simp add: join_catch_after register_user_def)
  have mem: "(s, rid) \<in> set (registry (after (join_catch s rid userName e ?r)))"
    by (simp add: reg in_registry_socket_join)
  have bc: "\<forall>x. (x, rid) \<in> set (registry (after (join_catch s rid userName e ?r)))
            \<longrightarrow> Emit x UserJoined (Arr (Array_from_get
                   (activeRooms (after (join_catch s rid userName e ?r))) rid))
                  \<in> set (emitted (join_catch s rid userName e ?r))"
    by (auto simp: join_catch_emitted join_catch_after set_room_members)
  have err: "Emit s ErrorEvent (Val (Str ''Failed to join room''))
            \<in> set (emitted (join_catch s rid userName e ?r))"
    by (simp add: join_catch_emitted)
  show ?thesis
    unfolding J using pres mem bc err by (simp add: on_join_def J)
qed

theorem join_store_unreachable_witness:
  "(Throws = Throws \<or> Succeeds = Throws)
   \<and> Str ''carol'' \<in> set (Array_from_get
        (activeRooms (after (join ''s3'' (Str ''room1'') (Str ''carol'') 3 Succeeds Throws Succeeds
           alice_and_bob))) (Str ''room1''))
   \<and> emitted (join ''s3'' (Str ''room1'') (Str ''carol'') 3 Succeeds Throws Succeeds alice_and_bob)
       = [Emit ''s3'' ErrorEvent (Val (Str ''Failed to join room'')),
          Emit ''s1'' UserJoined (Arr [Str ''alice'', Str ''bob'', Str ''carol'']),
          Emit ''s2'' UserJoined (Arr [Str ''alice'', Str ''bob'', Str ''carol'']),
          Emit ''s3'' UserJoined (Arr [Str ''alice'', Str ''bob'', Str ''carol''])]"
  using join_store_unreachable
    [of Throws Succeeds "''s3''" "Str ''room1''" "Str ''carol''" 3 Succeeds alice_and_bob]
  by (simp add: join_def initial_def alice_and_bob_def connection_def handler_defs)

text \<open>
  C9. On the degraded path of a join nobody is sent \<^verbatim>\<open>codeUpdate\<close> or
  \<^verbatim>\<open>languageUpdate\<close>, and every message to the joining socket is either the error
  message or the \<^verbatim>\<open>userJoined\<close> broadcast with the room's presence entry.
\<close>

theorem join_degraded_sends_no_code:
  assumes "oc_find = Throws \<or> oc_save = Throws"
  shows "(\<forall>m \<in> set (emitted (join s rid userName now oc_prev oc_find oc_save st)).
            event m \<noteq> CodeUpdate \<and> event m \<noteq> LanguageUpdate)
       \<and> (\<forall>m \<in> set (emitted (join s rid userName now oc_prev oc_find oc_save st)).
            recipient m = s \<longrightarrow>
              m = Emit s ErrorEvent (Val (Str ''Failed to join room'')) \<or>
              m = Emit s UserJoined (Arr (Array_from_get
                    (activeRooms (after (join s rid userName now oc_prev oc_find oc_save st))) rid)))"
proof -
  let ?r = "(leave_previous s oc_prev st)
              \<lparr>after := register_user s rid userName (after (leave_previous s oc_prev st))\<rparr>"
  from join_degraded [OF assms] obtain e where
    J: "join s rid userName now oc_prev oc_find oc_save st = join_catch s rid userName e ?r"
    by blast
  have ev: "event m \<noteq> CodeUpdate \<and> event m \<noteq> LanguageUpdate"
    if "m \<in> set (emitted (join_catch s rid userName e ?r))" for m
    using that leave_previous_events [of m s oc_prev st]
    by (auto simp: join_catch_emitted)
  have me: "m = Emit s ErrorEvent (Val (Str ''Failed to join room'')) \<or>
            m = Emit s UserJoined (Arr (Array_from_get
                    (activeRooms (after (join_catch s rid userName e ?r))) rid))"
    if "m \<in> set (emitted (join_catch s rid userName e ?r))" "recipient m = s" for m
  proof -
    from that(1) consider
        "m \<in> set (emitted (leave_previous s oc_prev st))"
      | "m = Emit s ErrorEvent (Val (Str ''Failed to join room''))"
      | x where "m = Emit x UserJoined (Arr (Array_from_get
                    (activeRooms (after (join_catch s rid userName e ?r))) rid))"
      by (auto simp: join_catch_emitted join_catch_after)
    then show ?thesis
    proof cases
      case 1
      with leave_previous_no_message_to_self that(2) show ?thesis by blast
    next
      case 2
      then show ?thesis by simp
    next
      case (3 x)
      with that(2) have "x = s" by simp
      with 3 show ?thesis by simp
    qed
  qed
  show ?thesis
    unfolding J using ev me by blast
qed

theorem join_degraded_sends_no_code_witness:
  "(Succeeds = Throws \<or> Throws = Throws)
   \<and> filter (\<lambda>m. recipient m = ''s1'')
       (emitted (join ''s1'' (Str ''room2'') (Str ''alice'') 3 Succeeds Succeeds Throws alice_and_bob))
       = [Emit ''s1'' ErrorEvent (Val (Str ''Failed to join room'')),
          Emit ''s1'' UserJoined (Arr [Str ''alice''])]
   \<and> list_all (\<lambda>m. event m \<noteq> CodeUpdate \<and> event m \<noteq> LanguageUpdate)
       (emitted (join ''s1'' (Str ''room2'') (Str ''alice'') 3 Succeeds Succeeds Throws alice_and_bob))"
  using join_degraded_sends_no_code
    [of Succeeds Throws "''s1''" "Str ''room2''" "Str ''alice''" 3 Succeeds alice_and_bob]
  by (simp add: join_def initial_def alice_and_bob_def connection_def handler_defs)

text \<open>
  C7 as stated fails for the empty room id: the schema requires \<^verbatim>\<open>roomId\<close>, the
  save of the new document is refused although the store answers, the join takes the
  catch block, and no record is stored.
\<close>

theorem join_empty_room_id_counterexample:
  "db (after (connection ''s1'' initial)) (Str []) = None
   \<and> db (after (join ''s1'' (Str []) (Str ''alice'') 1 Succeeds Succeeds Succeeds
            (after (connection ''s1'' initial)))) (Str []) = None
   \<and> emitted (join ''s1'' (Str []) (Str ''alice'') 1 Succeeds Succeeds Succeeds
        (after (connection ''s1'' initial)))
       = [Emit ''s1'' ErrorEvent (Val (Str ''Failed to join room'')),
          Emit ''s1'' UserJoined (Arr [Str ''alice''])]"
  by (simp add: join_def initial_def connection_def handler_defs)

text \<open>
  C7, amended. After a join to a room with no durable record, whose room id is a non-empty
  string and whose lookup and save succeed, the store holds a record for the room with
  empty code, language \<^verbatim>\<open>javascript\<close> and, as active users, the room's presence
  entry, which contains the user that joined.
\<close>

theorem join_creates_durable_room:
  assumes "db st (Str R) = None" and "R \<noteq> []"
  shows "db (after (join s (Str R) userName now oc_prev Succeeds Succeeds st)) (Str R)
           = Some \<lparr>roomId = Str R, code = Str [], language = Str ''javascript'',
                   createdAt = now, lastModified = now,
                   activeUsers = Array_from_get
                     (activeRooms (after (join s (Str R) userName now oc_prev Succeeds Succeeds st)))
                     (Str R)\<rparr>
       \<and> userName \<in> set (Array_from_get
             (activeRooms (after (join s (Str R) userName now oc_prev Succeeds Succeeds st))) (Str R))"
proof -
  from assms have t: "truthy (Str R)" by simp
  show ?thesis
    unfolding join_created [OF assms(1) t]
    by (simp add: join_finish_def Let_def schema_defaults_def register_user_def
        registered_in_snapshot)
qed

theorem join_creates_durable_room_witness:
  "db (after (connection ''s1'' initial)) (Str ''room1'') = None \<and> ''room1'' \<noteq> []
   \<and> db (after (join ''s1'' (Str ''room1'') (Str ''alice'') 1 Succeeds Succeeds Succeeds
            (after (connection ''s1'' initial)))) (Str ''room1'')
       = Some \<lparr>roomId = Str ''room1'', code = Str [], language = Str ''javascript'',
               createdAt = 1, lastModified = 1, activeUsers = [Str ''alice'']\<rparr>"
  using join_creates_durable_room
    [of "after (connection ''s1'' initial)" "''room1''" "''s1''" "Str ''alice''" 1 Succeeds]
  by (simp add: join_def initial_def connection_def handler_defs)

subsection \<open>What a join does, in general\<close>

lemma map_entry_twice:
  "AList.map_entry k f (AList.map_entry k g m) = AList.map_entry k (f \<circ> g) m"
  by (induction m) auto

lemma Set_add_twice: "Set_add u (Set_add u us) = Set_add u us"
  by (simp add: Set_add_def)

lemma register_twice:
  "get_add k u (ensure_entry k (get_add k u (ensure_entry k m))) = get_add k u (ensure_entry k m)"
proof -
  have "ensure_entry k (get_add k u (ensure_entry k m)) = get_add k u (ensure_entry k m)"
    using Map_has_registered [of k u m] by (simp add: ensure_entry_def)
  then show ?thesis
    by (simp add: get_add_def map_entry_twice comp_def Set_add_twice)
qed

lemma leave_previous_after:
  "sessions (after (leave_previous s oc st)) = sessions st"
  "registry (after (leave_previous s oc st))
     = (if truthy (currentRoom (sessions st s))
        then socket_leave s (currentRoom (sessions st s)) (registry st) else registry st)"
  "activeRooms (after (leave_previous s oc st))
     = (if truthy (currentRoom (sessions st s)) \<and> Map_has (activeRooms st) (currentRoom (sessions st s))
        then get_delete (currentRoom (sessions st s)) (currentUser (sessions st s)) (activeRooms st)
        else activeRooms st)"
  by (simp_all add: leave_previous_def Let_def split: sum.splits)

lemma leave_previous_emitted:
  "emitted (leave_previous s oc st)
     = (if truthy (currentRoom (sessions st s)) \<and> Map_has (activeRooms st) (currentRoom (sessions st s))
        then map (\<lambda>x. Emit x UserJoined
                   (Arr (removeAll (currentUser (sessions st s))
                      (Array_from_get (activeRooms st) (currentRoom (sessions st s))))))
              (filter (\<lambda>x. x \<noteq> s) (room_members (registry st) (currentRoom (sessions st s))))
        else [])"
  by (simp add: leave_previous_def Let_def io_to_emit_def room_members_socket_leave
      Array_from_get_get_delete split: sum.splits)

lemma join_after:
  "activeRooms (after (join s rid userName now oc_prev oc_find oc_save st))
     = get_add rid userName (ensure_entry rid (activeRooms (after (leave_previous s oc_prev st))))"
  "registry (after (join s rid userName now oc_prev oc_find oc_save st))
     = socket_join s rid (registry (after (leave_previous s oc_prev st)))"
  "sessions (after (join s rid userName now oc_prev oc_find oc_save st))
     = (sessions st)(s := \<lparr>currentRoom = rid, currentUser = userName\<rparr>)"
  by (simp_all add: join_def join_catch_def join_finish_def register_user_def Let_def
      register_twice leave_previous_after split: sum.splits option.splits)

lemma join_emitted:
  "\<exists>direct.
     emitted (join s rid userName now oc_prev oc_find oc_save st)
       = emitted (leave_previous s oc_prev st) @ direct
         @ map (\<lambda>x. Emit x UserJoined (Arr (Array_from_get
                  (activeRooms (after (join s rid userName now oc_prev oc_find oc_save st))) rid)))
             (room_members (registry (after (join s rid userName now oc_prev oc_find oc_save st))) rid)
     \<and> (\<forall>m \<in> set direct. recipient m = s \<and> event m \<noteq> UserJoined)"
  unfolding join_after
  by (simp add: join_def join_catch_def join_finish_def register_user_def Let_def
      register_twice socket_emit_def io_to_emit_def split: sum.splits option.splits)


lemma snapshot_after_register:
  "Array_from_get (get_add k u (ensure_entry k m)) k = Set_add u (Array_from_get m k)"
  by (simp add: Array_from_get_get_add Map_has_ensure_entry)
     (simp add: Array_from_get_def ensure_entry_def Map_has_def update_conv' split: option.splits)

lemma snapshot_elsewhere_after_register:
  "k' \<noteq> k \<Longrightarrow> Array_from_get (get_add k u (ensure_entry k m)) k' = Array_from_get m k'"
  by (simp add: Array_from_get_def get_add_def ensure_entry_def map_of_map_entry update_conv')

lemma join_registers:
  "userName \<in> set (Array_from_get
      (activeRooms (after (join s rid userName now oc_prev oc_find oc_save st))) rid)"
  by (simp add: join_after registered_in_snapshot)

lemma join_broadcasts_to_room:
  assumes "(x, rid) \<in> set (registry (after (join s rid userName now oc_prev oc_find oc_save st)))"
  shows "Emit x UserJoined (Arr (Array_from_get
            (activeRooms (after (join s rid userName now oc_prev oc_find oc_save st))) rid))
         \<in> set (emitted (join s rid userName now oc_prev oc_find oc_save st))"
proof -
  from join_emitted [of s rid userName now oc_prev oc_find oc_save st] obtain direct where
    "emitted (join s rid userName now oc_prev oc_find oc_save st)
       = emitted (leave_previous s oc_prev st) @ direct
         @ map (\<lambda>x. Emit x UserJoined (Arr (Array_from_get
                  (activeRooms (after (join s rid userName now oc_prev oc_find oc_save st))) rid)))
             (room_members (registry (after (join s rid userName now oc_prev oc_find oc_save st))) rid)"
    by blast
  with assms show ?thesis
    by (simp add: set_room_members image_iff)
qed

lemma join_in_room:
  "(s, rid) \<in> set (registry (after (join s rid userName now oc_prev oc_find oc_save st)))"
  by (simp add: join_after in_registry_socket_join)

text \<open>A room id that is not a non-empty string, with no record stored under it: the
  save is refused (or the lookup throws), and the join takes the catch block.\<close>

lemma join_refused_room_id:
  assumes "\<not> truthy rid" and "db st rid = None"
  shows "\<exists>e. join s rid userName now oc_prev oc_find oc_save st
           = join_catch s rid userName e
               ((leave_previous s oc_prev st)
                  \<lparr>after := register_user s rid userName (after (leave_previous s oc_prev st))\<rparr>)"
  using assms leave_previous_db_None [OF assms(2), of s oc_prev]
  by (auto simp: join_def Let_def Room_findOne_def Room_save_def register_user_def
      schema_defaults_def split: outcome.splits)

lemma join_refused_sends_error:
  assumes "\<not> truthy rid" and "db st rid = None"
  shows "Emit s ErrorEvent (Val (Str ''Failed to join room''))
           \<in> set (emitted (join s rid userName now oc_prev oc_find oc_save st))"
    and "db (after (join s rid userName now oc_prev oc_find oc_save st)) rid = None"
proof -
  from join_refused_room_id [OF assms] obtain e where
    J: "join s rid userName now oc_prev oc_find oc_save st
           = join_catch s rid userName e
               ((leave_previous s oc_prev st)
                  \<lparr>after := register_user s rid userName (after (leave_previous s oc_prev st))\<rparr>)"
    by blast
  show "Emit s ErrorEvent (Val (Str ''Failed to join room''))
           \<in> set (emitted (join s rid userName now oc_prev oc_find oc_save st))"
    unfolding J by (simp add: join_catch_emitted)
  show "db (after (join s rid userName now oc_prev oc_find oc_save st)) rid = None"
    unfolding J using leave_previous_db_None [OF assms(2), of s oc_prev]
    by (simp add: join_catch_after register_user_def)
qed

lemma example_db_undefined: "db alice_and_bob Undefined = None"
  by (simp add: alice_and_bob_def join_def connection_def initial_def handler_defs)

lemma join_emitted_split:
  "emitted (join s rid userName now oc_prev oc_find oc_save st)
     = emitted (leave_previous s oc_prev st)
       @ filter (\<lambda>m. event m \<noteq> UserJoined)
           (emitted (join s rid userName now oc_prev oc_find oc_save st))
       @ map (\<lambda>x. Emit x UserJoined (Arr (Array_from_get
                (activeRooms (after (join s rid userName now oc_prev oc_find oc_save st))) rid)))
           (room_members (registry (after (join s rid userName now oc_prev oc_find oc_save st))) rid)"
  "\<forall>m \<in> set (filter (\<lambda>m. event m \<noteq> UserJoined)
               (emitted (join s rid userName now oc_prev oc_find oc_save st))).
     recipient m = s"
proof -
  let ?J = "join s rid userName now oc_prev oc_find oc_save st"
  let ?L = "emitted (leave_previous s oc_prev st)"
  let ?B = "map (\<lambda>x. Emit x UserJoined (Arr (Array_from_get (activeRooms (after ?J)) rid)))
              (room_members (registry (after ?J)) rid)"
  from join_emitted [of s rid userName now oc_prev oc_find oc_save st] obtain direct where
    em: "emitted ?J = ?L @ direct @ ?B"
    and di: "\<forall>m \<in> set direct. recipient m = s \<and> event m \<noteq> UserJoined"
    by blast
  have fl: "filter (\<lambda>m. event m \<noteq> UserJoined) ?L = []"
    using leave_previous_events [of _ s oc_prev st] by (auto simp: filter_empty_conv)
  have fb: "filter (\<lambda>m. event m \<noteq> UserJoined) ?B = []"
    by (simp add: filter_empty_conv)
  have fd: "filter (\<lambda>m. event m \<noteq> UserJoined) direct = direct"
    using di by (simp add: filter_id_conv)
  have f: "filter (\<lambda>m. event m \<noteq> UserJoined) (emitted ?J) = direct"
    by (simp only: em filter_append fl fb fd append_Nil append_Nil2)
  show "emitted ?J = ?L @ filter (\<lambda>m. event m \<noteq> UserJoined) (emitted ?J) @ ?B"
    unfolding f by (rule em)
  show "\<forall>m \<in> set (filter (\<lambda>m. event m \<noteq> UserJoined) (emitted ?J)). recipient m = s"
    unfolding f using di by blast
qed

subsection \<open>Leaving\<close>

text \<open>When the update of the store throws, neither way of leaving emits anything.\<close>

lemma leaving_silent_when_store_throws:
  "emitted (leaveRoom s Throws st) = [] \<and> emitted (disconnect s Throws st) = []"
  by (simp add: leaveRoom_def disconnect_def disconnect_handler_def Room_findOneAndUpdate_def Let_def)

text \<open>
  C1, at a failing input: alice (socket \<^verbatim>\<open>s1\<close>) and bob (socket \<^verbatim>\<open>s2\<close>) are in
  \<^verbatim>\<open>room1\<close>, alice leaves and the update of the store throws. Alice is removed from
  the presence entry and the failure is printed, but nothing is emitted: bob is never
  sent the new user list, for an explicit leave and for a disconnect alike. With a store
  that answers the list is sent, and the implicit leave inside join sends it even when
  the store throws.
\<close>

theorem leaveRoom_store_failure_skips_broadcast:
  "sessions alice_and_bob ''s1'' = \<lparr>currentRoom = Str ''room1'', currentUser = Str ''alice''\<rparr>
   \<and> activeRooms (after (leaveRoom ''s1'' Throws alice_and_bob)) = [(Str ''room1'', [Str ''bob''])]
   \<and> console (leaveRoom ''s1'' Throws alice_and_bob) = [ErrLeavingRoom StoreError]
   \<and> emitted (leaveRoom ''s1'' Throws alice_and_bob) = []
   \<and> activeRooms (after (disconnect ''s1'' Throws alice_and_bob)) = [(Str ''room1'', [Str ''bob''])]
   \<and> emitted (disconnect ''s1'' Throws alice_and_bob) = []
   \<and> emitted (leaveRoom ''s1'' Succeeds alice_and_bob)
       = [Emit ''s1'' UserJoined (Arr [Str ''bob'']), Emit ''s2'' UserJoined (Arr [Str ''bob''])]
   \<and> emitted (disconnect ''s1'' Succeeds alice_and_bob) = [Emit ''s2'' UserJoined (Arr [Str ''bob''])]
   \<and> emitted (leave_previous ''s1'' Throws alice_and_bob) = [Emit ''s2'' UserJoined (Arr [Str ''bob''])]"
  by (simp add: leaveRoom_def disconnect_def disconnect_handler_def transport_close_def
      example handler_defs)

text \<open>
  C5 as stated fails for a disconnect: the handler never assigns the two closure
  variables, so alice's session still names \<^verbatim>\<open>room1\<close> after her socket has closed.
\<close>

theorem disconnect_keeps_session_counterexample:
  "sessions alice_and_bob ''s1'' = \<lparr>currentRoom = Str ''room1'', currentUser = Str ''alice''\<rparr>
   \<and> sessions (after (disconnect ''s1'' Succeeds alice_and_bob)) ''s1''
       = \<lparr>currentRoom = Str ''room1'', currentUser = Str ''alice''\<rparr>"
  by (simp add: disconnect_def disconnect_handler_def transport_close_def example handler_defs)

text \<open>
  C5, amended. After an explicit leaveRoom of a joined connection (both closure variables
  truthy) whose update of the store does not throw, or whose room has no presence entry,
  \<^verbatim>\<open>currentRoom\<close> and \<^verbatim>\<open>currentUser\<close> are \<^verbatim>\<open>null\<close> and the socket is out of the
  room. The disconnect handler leaves every session as it was.
\<close>

theorem leaveRoom_clears_session:
  assumes "truthy (currentRoom (sessions st s))" and "truthy (currentUser (sessions st s))"
    and "oc = Succeeds \<or> \<not> Map_has (activeRooms st) (currentRoom (sessions st s))"
  shows "sessions (after (leaveRoom s oc st)) s = \<lparr>currentRoom = Null, currentUser = Null\<rparr>
       \<and> (s, currentRoom (sessions st s)) \<notin> set (registry (after (leaveRoom s oc st)))
       \<and> sessions (after (disconnect s' oc' st')) = sessions st'"
proof -
  have d: "sessions (after (disconnect s' oc' st')) = sessions st'"
    by (simp add: disconnect_def disconnect_handler_def transport_close_def
        Room_findOneAndUpdate_def Let_def split: outcome.splits)
  from assms show ?thesis
    unfolding d
    by (auto simp: leaveRoom_def Room_findOneAndUpdate_def Let_def socket_leave_def)
qed

theorem leaveRoom_clears_session_witness:
  "truthy (currentRoom (sessions alice_and_bob ''s1''))
   \<and> truthy (currentUser (sessions alice_and_bob ''s1''))
   \<and> sessions (after (leaveRoom ''s1'' Succeeds alice_and_bob)) ''s1''
       = \<lparr>currentRoom = Null, currentUser = Null\<rparr>
   \<and> registry (after (leaveRoom ''s1'' Succeeds alice_and_bob))
       = [(''s1'', Str ''s1''), (''s2'', Str ''s2''), (''s2'', Str ''room1'')]"
  using leaveRoom_clears_session [of alice_and_bob "''s1''" Succeeds]
  by (simp add: leaveRoom_def example handler_defs)

subsection \<open>Joining again\<close>

text \<open>
  C2 as stated fails: alice's connection is in \<^verbatim>\<open>room1\<close> and joins \<^verbatim>\<open>room1\<close>
  again. The first message of the run tells bob that the room holds bob alone, and the
  presence entry after lines 54-70 is without alice.
\<close>

theorem join_same_room_counterexample:
  "currentRoom (sessions alice_and_bob ''s1'') = Str ''room1''
   \<and> activeRooms (after (leave_previous ''s1'' Succeeds alice_and_bob))
       = [(Str ''room1'', [Str ''bob''])]
   \<and> emitted (join ''s1'' (Str ''room1'') (Str ''alice'') 3 Succeeds Succeeds Succeeds alice_and_bob)
       = [Emit ''s2'' UserJoined (Arr [Str ''bob'']),
          Emit ''s1'' CodeUpdate (Val (Str [])),
          Emit ''s1'' LanguageUpdate (Val (Str ''javascript'')),
          Emit ''s2'' UserJoined (Arr [Str ''bob'', Str ''alice'']),
          Emit ''s1'' UserJoined (Arr [Str ''bob'', Str ''alice''])]"
  by (simp add: join_def example handler_defs)

text \<open>
  C2, amended. A join leaves the previous room whenever \<^verbatim>\<open>currentRoom\<close> is truthy,
  whether or not it is the room being joined. With \<open>cr\<close>, \<open>cu\<close> the closure variables
  before the join and \<open>us\<close> the presence entry of \<open>cr\<close>: after the join the socket is
  out of \<open>cr\<close> and in the target room, the session names the target room and the new
  user name, and the new user name is in the target room's entry. When \<open>cr\<close> has a
  presence entry, \<open>cu\<close> is removed from it first, and the join emits, in this order, the
  list without \<open>cu\<close> to the sockets that remain in \<open>cr\<close>, then its messages to the
  joining socket alone, then the target room's entry to every socket of the target room.
  For a join to the room the connection is already in, that entry is \<open>us\<close> without
  \<open>cu\<close> with the user name added again. With a falsy \<^verbatim>\<open>currentRoom\<close>, or no entry
  for it, nothing is removed and no list without the user is sent.
\<close>

theorem join_leaves_previous_room:
  assumes cr: "cr = currentRoom (sessions st s)" and cu: "cu = currentUser (sessions st s)"
    and us: "us = Array_from_get (activeRooms st) cr"
    and J: "J = join s rid userName now oc_prev oc_find oc_save st"
  shows "sessions (after J) s = \<lparr>currentRoom = rid, currentUser = userName\<rparr>
       \<and> userName \<in> set (Array_from_get (activeRooms (after J)) rid)
       \<and> (\<forall>m \<in> set (filter (\<lambda>m. event m \<noteq> UserJoined) (emitted J)). recipient m = s)
       \<and> (truthy cr \<longrightarrow> registry (after J) = socket_join s rid (socket_leave s cr (registry st)))
       \<and> (\<not> truthy cr \<longrightarrow> registry (after J) = socket_join s rid (registry st))
       \<and> (truthy cr \<and> Map_has (activeRooms st) cr \<longrightarrow>
            activeRooms (after J)
              = get_add rid userName (ensure_entry rid (get_delete cr cu (activeRooms st)))
            \<and> (rid = cr \<longrightarrow>
                 Array_from_get (activeRooms (after J)) rid = Set_add userName (removeAll cu us))
            \<and> (rid \<noteq> cr \<longrightarrow> Array_from_get (activeRooms (after J)) cr = removeAll cu us)
            \<and> emitted J
                   = map (\<lambda>x. Emit x UserJoined (Arr (removeAll cu us)))
                       (filter (\<lambda>x. x \<noteq> s) (room_members (registry st) cr))
                     @ filter (\<lambda>m. event m \<noteq> UserJoined) (emitted J)
                     @ map (\<lambda>x. Emit x UserJoined (Arr (Array_from_get (activeRooms (after J)) rid)))
                         (room_members (registry (after J)) rid))
       \<and> (\<not> (truthy cr \<and> Map_has (activeRooms st) cr) \<longrightarrow>
            activeRooms (after J) = get_add rid userName (ensure_entry rid (activeRooms st))
            \<and> emitted J
                   = filter (\<lambda>m. event m \<noteq> UserJoined) (emitted J)
                     @ map (\<lambda>x. Emit x UserJoined (Arr (Array_from_get (activeRooms (after J)) rid)))
                         (room_members (registry (after J)) rid))"
proof -
  let ?D = "filter (\<lambda>m. event m \<noteq> UserJoined) (emitted J)"
  let ?B = "map (\<lambda>x. Emit x UserJoined (Arr (Array_from_get (activeRooms (after J)) rid)))
              (room_members (registry (after J)) rid)"
  have se: "sessions (after J) s = \<lparr>currentRoom = rid, currentUser = userName\<rparr>"
    unfolding J by (simp add: join_after)
  have reg: "userName \<in> set (Array_from_get (activeRooms (after J)) rid)"
    unfolding J by (rule join_registers)
  have r1: "truthy cr \<longrightarrow> registry (after J) = socket_join s rid (socket_leave s cr (registry st))"
    unfolding J cr by (simp add: join_after leave_previous_after)
  have r2: "\<not> truthy cr \<longrightarrow> registry (after J) = socket_join s rid (registry st)"
    unfolding J cr by (simp add: join_after leave_previous_after)
  have em: "emitted J = emitted (leave_previous s oc_prev st) @ ?D @ ?B"
    and di: "\<forall>m \<in> set ?D. recipient m = s"
    unfolding J by (rule join_emitted_split)+
  have yes: "activeRooms (after J)
              = get_add rid userName (ensure_entry rid (get_delete cr cu (activeRooms st)))
            \<and> (rid = cr \<longrightarrow>
                 Array_from_get (activeRooms (after J)) rid = Set_add userName (removeAll cu us))
            \<and> (rid \<noteq> cr \<longrightarrow> Array_from_get (activeRooms (after J)) cr = removeAll cu us)
            \<and> emitted J
                 = map (\<lambda>x. Emit x UserJoined (Arr (removeAll cu us)))
                     (filter (\<lambda>x. x \<noteq> s) (room_members (registry st) cr))
                   @ ?D @ ?B"
    if t: "truthy cr \<and> Map_has (activeRooms st) cr"
  proof -
    from t have a: "activeRooms (after J)
              = get_add rid userName (ensure_entry rid (get_delete cr cu (activeRooms st)))"
      unfolding J cr cu by (simp add: join_after leave_previous_after)
    have b: "rid = cr \<longrightarrow>
                 Array_from_get (activeRooms (after J)) rid = Set_add userName (removeAll cu us)"
      unfolding a us by (simp add: snapshot_after_register Array_from_get_get_delete)
    have c: "rid \<noteq> cr \<longrightarrow> Array_from_get (activeRooms (after J)) cr = removeAll cu us"
      unfolding a us by (simp add: snapshot_elsewhere_after_register Array_from_get_get_delete)
    from t have l: "emitted (leave_previous s oc_prev st)
        = map (\<lambda>x. Emit x UserJoined (Arr (removeAll cu us)))
            (filter (\<lambda>x. x \<noteq> s) (room_members (registry st) cr))"
      unfolding cr cu us by (simp add: leave_previous_emitted)
    have d: "emitted J
                 = map (\<lambda>x. Emit x UserJoined (Arr (removeAll cu us)))
                     (filter (\<lambda>x. x \<noteq> s) (room_members (registry st) cr))
                   @ ?D @ ?B"
      using em unfolding l .
    from a b c d show ?thesis by (intro conjI)
  qed
  have no: "activeRooms (after J) = get_add rid userName (ensure_entry rid (activeRooms st))
            \<and> emitted J = ?D @ ?B"
    if f: "\<not> (truthy cr \<and> Map_has (activeRooms st) cr)"
  proof -
    from f have a: "activeRooms (after J) = get_add rid userName (ensure_entry rid (activeRooms st))"
      unfolding J cr by (auto simp: join_after leave_previous_after)
    from f have l: "emitted (leave_previous s oc_prev st) = []"
      unfolding cr by (auto simp: leave_previous_emitted)
    have d: "emitted J = ?D @ ?B"
      using em unfolding l by simp
    from a d show ?thesis by (intro conjI)
  qed
  show ?thesis
    by (intro conjI impI) (use se reg di r1 r2 yes no in \<open>blast+\<close>)
qed

theorem join_leaves_previous_room_witness:
  "Str ''room1'' = currentRoom (sessions alice_and_bob ''s1'')
   \<and> Str ''alice'' = currentUser (sessions alice_and_bob ''s1'')
   \<and> [Str ''alice'', Str ''bob''] = Array_from_get (activeRooms alice_and_bob) (Str ''room1'')
   \<and> truthy (Str ''room1'') \<and> Map_has (activeRooms alice_and_bob) (Str ''room1'')
   \<and> registry (after (join ''s1'' (Str ''room1'') (Str ''alice'') 3 Succeeds Succeeds Succeeds
          alice_and_bob))
       = [(''s1'', Str ''s1''), (''s2'', Str ''s2''), (''s2'', Str ''room1''), (''s1'', Str ''room1'')]
   \<and> activeRooms (after (join ''s1'' (Str ''room1'') (Str ''alice'') 3 Succeeds Succeeds Succeeds
          alice_and_bob))
       = [(Str ''room1'', [Str ''bob'', Str ''alice''])]
   \<and> emitted (join ''s1'' (Str ''room1'') (Str ''alice'') 3 Succeeds Succeeds Succeeds alice_and_bob)
       = [Emit ''s2'' UserJoined (Arr [Str ''bob''])]
         @ [Emit ''s1'' CodeUpdate (Val (Str [])), Emit ''s1'' LanguageUpdate (Val (Str ''javascript''))]
         @ [Emit ''s2'' UserJoined (Arr [Str ''bob'', Str ''alice'']),
            Emit ''s1'' UserJoined (Arr [Str ''bob'', Str ''alice''])]"
proof -
  let ?J = "join ''s1'' (Str ''room1'') (Str ''alice'') 3 Succeeds Succeeds Succeeds alice_and_bob"
  have h1: "Str ''room1'' = currentRoom (sessions alice_and_bob ''s1'')"
    and h2: "Str ''alice'' = currentUser (sessions alice_and_bob ''s1'')"
    and h3: "[Str ''alice'', Str ''bob''] = Array_from_get (activeRooms alice_and_bob) (Str ''room1'')"
    and g: "truthy (Str ''room1'') \<and> Map_has (activeRooms alice_and_bob) (Str ''room1'')"
    by (simp_all add: example Array_from_get_def Map_has_def)
  note T = join_leaves_previous_room
             [OF h1 h2 h3 refl, of "Str ''room1''" "Str ''alice''" 3 Succeeds Succeeds Succeeds]
  note leaving = T [THEN conjunct2, THEN conjunct2, THEN conjunct2, THEN conjunct2,
                    THEN conjunct2, THEN conjunct1, THEN mp, OF g]
  from g have t: "truthy (Str ''room1'')" ..
  have r: "registry (after ?J)
       = socket_join ''s1'' (Str ''room1'') (socket_leave ''s1'' (Str ''room1'') (registry alice_and_bob))"
    by (rule T [THEN conjunct2, THEN conjunct2, THEN conjunct2, THEN conjunct1, THEN mp, OF t])
  have r': "registry (after ?J)
       = [(''s1'', Str ''s1''), (''s2'', Str ''s2''), (''s2'', Str ''room1''), (''s1'', Str ''room1'')]"
    unfolding r by (simp add: example socket_join_def socket_leave_def)
  have a: "activeRooms (after ?J) = [(Str ''room1'', [Str ''bob'', Str ''alice''])]"
    unfolding leaving [THEN conjunct1]
    by (simp add: example get_add_def get_delete_def ensure_entry_def Map_has_def
        Set_add_def Set_delete_def)
  have e: "emitted ?J
       = [Emit ''s2'' UserJoined (Arr [Str ''bob''])]
         @ [Emit ''s1'' CodeUpdate (Val (Str [])), Emit ''s1'' LanguageUpdate (Val (Str ''javascript''))]
         @ [Emit ''s2'' UserJoined (Arr [Str ''bob'', Str ''alice'']),
            Emit ''s1'' UserJoined (Arr [Str ''bob'', Str ''alice''])]"
    by (simp add: join_def example handler_defs)
  from h1 h2 h3 g r' a e show ?thesis by (intro conjI) simp_all
qed

subsection \<open>Events with missing fields\<close>

text \<open>
  C6 as stated fails: alice's socket sends codeChange for \<^verbatim>\<open>room1\<close> with no
  \<^verbatim>\<open>code\<close> field. The handler returns, and bob is sent \<^verbatim>\<open>codeUpdate\<close> with
  \<^verbatim>\<open>undefined\<close>.
\<close>

theorem codeChange_missing_code_counterexample:
  "map_sum id emitted (on_codeChange ''s1'' (Some (Str ''room1'', Undefined)) 3 Succeeds alice_and_bob)
     = Inr [Emit ''s2'' CodeUpdate (Val Undefined)]"
  by (simp add: on_codeChange_def codeChange_def example handler_defs)

text \<open>An event sent with no payload object at all faults at the destructuring of the
  handler's parameter, outside every \<^verbatim>\<open>try\<close> block.\<close>

lemma no_payload_faults:
  "on_join s None now oc_prev oc_find oc_save st = Inl (Unhandled TypeError)"
  "on_codeChange s None now oc st = Inl (Unhandled TypeError)"
  "on_languageChange s None now oc st = Inl (Unhandled TypeError)"
  "on_typing s None st = Inl (Unhandled TypeError)"
  by (simp_all add: on_join_def on_codeChange_def on_languageChange_def on_typing_def)

text \<open>
  C6, amended. No handler validates its payload: a field missing from the payload object is
  used as \<^verbatim>\<open>undefined\<close>, the handler returns without an unhandled fault, and the
  event is not dropped. codeChange with no \<^verbatim>\<open>code\<close>: the TypeError of
  \<^verbatim>\<open>code.length\<close> (or the failure of the store) is caught and printed, and
  \<^verbatim>\<open>codeUpdate\<close> with \<^verbatim>\<open>undefined\<close> goes to exactly the other sockets of the room.
  typing with no \<^verbatim>\<open>userName\<close>: \<^verbatim>\<open>userTyping\<close> with \<^verbatim>\<open>undefined\<close> goes to exactly
  the other sockets of the room. languageChange with no \<^verbatim>\<open>language\<close>:
  \<^verbatim>\<open>languageUpdate\<close> with \<^verbatim>\<open>undefined\<close> goes to every socket of the room. join with
  no \<^verbatim>\<open>userName\<close>: \<^verbatim>\<open>undefined\<close> is registered in the room's presence entry and
  the entry is sent to every socket of the room. join with no \<^verbatim>\<open>roomId\<close>: the socket
  joins the room \<^verbatim>\<open>undefined\<close>, the user is registered under that key, the entry is
  sent to every socket of that room and, when no record is stored under
  \<^verbatim>\<open>undefined\<close>, the sender is sent the error message.
\<close>

theorem missing_fields_are_used_as_undefined:
  "on_codeChange s (Some (rid, Undefined)) now oc st = Inr (codeChange s rid Undefined now oc st)
   \<and> emitted (codeChange s rid Undefined now oc st)
       = map (\<lambda>x. Emit x CodeUpdate (Val Undefined))
           (filter (\<lambda>x. x \<noteq> s) (room_members (registry st) rid))
   \<and> console (codeChange s rid Undefined now oc st)
       = [ErrSavingCode (case oc of Succeeds \<Rightarrow> TypeError | Throws \<Rightarrow> StoreError)]
   \<and> on_typing s (Some (rid, Undefined)) st = Inr (typing s rid Undefined st)
   \<and> emitted (typing s rid Undefined st)
       = map (\<lambda>x. Emit x UserTyping (Val Undefined))
           (filter (\<lambda>x. x \<noteq> s) (room_members (registry st) rid))
   \<and> on_languageChange s (Some (rid, Undefined)) now oc st
       = Inr (languageChange s rid Undefined now oc st)
   \<and> emitted (languageChange s rid Undefined now oc st)
       = map (\<lambda>x. Emit x LanguageUpdate (Val Undefined)) (room_members (registry st) rid)
   \<and> on_join s (Some (rid, Undefined)) now oc_prev oc_find oc_save st
       = Inr (join s rid Undefined now oc_prev oc_find oc_save st)
   \<and> Undefined \<in> set (Array_from_get
        (activeRooms (after (join s rid Undefined now oc_prev oc_find oc_save st))) rid)
   \<and> (\<forall>x. (x, rid) \<in> set (registry (after (join s rid Undefined now oc_prev oc_find oc_save st)))
        \<longrightarrow> Emit x UserJoined (Arr (Array_from_get
               (activeRooms (after (join s rid Undefined now oc_prev oc_find oc_save st))) rid))
             \<in> set (emitted (join s rid Undefined now oc_prev oc_find oc_save st)))
   \<and> on_join s (Some (Undefined, userName)) now oc_prev oc_find oc_save st
       = Inr (join s Undefined userName now oc_prev oc_find oc_save st)
   \<and> (s, Undefined) \<in> set (registry (after (join s Undefined userName now oc_prev oc_find oc_save st)))
   \<and> userName \<in> set (Array_from_get
        (activeRooms (after (join s Undefined userName now oc_prev oc_find oc_save st))) Undefined)
   \<and> (\<forall>x. (x, Undefined)
            \<in> set (registry (after (join s Undefined userName now oc_prev oc_find oc_save st)))
        \<longrightarrow> Emit x UserJoined (Arr (Array_from_get
               (activeRooms (after (join s Undefined userName now oc_prev oc_find oc_save st)))
               Undefined))
             \<in> set (emitted (join s Undefined userName now oc_prev oc_find oc_save st)))
   \<and> (db st Undefined = None \<longrightarrow>
        Emit s ErrorEvent (Val (Str ''Failed to join room''))
          \<in> set (emitted (join s Undefined userName now oc_prev oc_find oc_save st)))"
proof -
  have c: "emitted (codeChange s rid Undefined now oc st)
       = map (\<lambda>x. Emit x CodeUpdate (Val Undefined))
           (filter (\<lambda>x. x \<noteq> s) (room_members (registry st) rid))
     \<and> console (codeChange s rid Undefined now oc st)
       = [ErrSavingCode (case oc of Succeeds \<Rightarrow> TypeError | Throws \<Rightarrow> StoreError)]"
    by (simp add: codeChange_def socket_to_emit_def Room_findOneAndUpdate_upsert_def Let_def
        split: outcome.splits)
  have t: "emitted (typing s rid Undefined st)
       = map (\<lambda>x. Emit x UserTyping (Val Undefined))
           (filter (\<lambda>x. x \<noteq> s) (room_members (registry st) rid))"
    by (simp add: typing_def socket_to_emit_def)
  have l: "emitted (languageChange s rid Undefined now oc st)
       = map (\<lambda>x. Emit x LanguageUpdate (Val Undefined)) (room_members (registry st) rid)"
    by (simp add: languageChange_def io_to_emit_def Room_findOneAndUpdate_upsert_def Let_def
        split: outcome.splits)
  have w: "on_codeChange s (Some (rid, Undefined)) now oc st
             = Inr (codeChange s rid Undefined now oc st)
     \<and> on_typing s (Some (rid, Undefined)) st = Inr (typing s rid Undefined st)
     \<and> on_languageChange s (Some (rid, Undefined)) now oc st
             = Inr (languageChange s rid Undefined now oc st)
     \<and> on_join s (Some (rid, Undefined)) now oc_prev oc_find oc_save st
             = Inr (join s rid Undefined now oc_prev oc_find oc_save st)
     \<and> on_join s (Some (Undefined, userName)) now oc_prev oc_find oc_save st
             = Inr (join s Undefined userName now oc_prev oc_find oc_save st)"
    by (simp add: on_codeChange_def on_typing_def on_languageChange_def on_join_def)
  have e: "db st Undefined = None \<longrightarrow>
        Emit s ErrorEvent (Val (Str ''Failed to join room''))
          \<in> set (emitted (join s Undefined userName now oc_prev oc_find oc_save st))"
    using join_refused_sends_error(1) [of Undefined st s userName now oc_prev oc_find oc_save]
    by simp
  have j3: "\<forall>x. (x, rid) \<in> set (registry (after (join s rid Undefined now oc_prev oc_find oc_save st)))
        \<longrightarrow> Emit x UserJoined (Arr (Array_from_get
               (activeRooms (after (join s rid Undefined now oc_prev oc_find oc_save st))) rid))
             \<in> set (emitted (join s rid Undefined now oc_prev oc_find oc_save st))"
    by (intro allI impI) (rule join_broadcasts_to_room)
  have k4: "\<forall>x. (x, Undefined)
            \<in> set (registry (after (join s Undefined userName now oc_prev oc_find oc_save st)))
        \<longrightarrow> Emit x UserJoined (Arr (Array_from_get
               (activeRooms (after (join s Undefined userName now oc_prev oc_find oc_save st)))
               Undefined))
             \<in> set (emitted (join s Undefined userName now oc_prev oc_find oc_save st))"
    by (intro allI impI) (rule join_broadcasts_to_room)
  from c t l w e j3 k4 show ?thesis
    by (simp add: join_registers join_in_room)
qed

theorem missing_fields_are_used_as_undefined_witness:
  "emitted (typing ''s1'' (Str ''room1'') Undefined alice_and_bob)
     = [Emit ''s2'' UserTyping (Val Undefined)]
   \<and> emitted (languageChange ''s1'' (Str ''room1'') Undefined 3 Succeeds alice_and_bob)
     = [Emit ''s1'' LanguageUpdate (Val Undefined), Emit ''s2'' LanguageUpdate (Val Undefined)]
   \<and> (''s2'', Str ''room1'') \<in> set (registry (after
        (join ''s1'' (Str ''room1'') Undefined 3 Succeeds Succeeds Succeeds alice_and_bob)))
   \<and> Emit ''s2'' UserJoined (Arr [Str ''bob'', Undefined])
        \<in> set (emitted (join ''s1'' (Str ''room1'') Undefined 3 Succeeds Succeeds Succeeds alice_and_bob))
   \<and> db alice_and_bob Undefined = None
   \<and> emitted (join ''s1'' Undefined (Str ''alice'') 3 Succeeds Succeeds Succeeds alice_and_bob)
     = [Emit ''s2'' UserJoined (Arr [Str ''bob'']),
        Emit ''s1'' ErrorEvent (Val (Str ''Failed to join room'')),
        Emit ''s1'' UserJoined (Arr [Str ''alice''])]"
  using missing_fields_are_used_as_undefined
      [of "''s1''" "Str ''room1''" 3 Succeeds alice_and_bob Succeeds Succeeds Succeeds "Str ''alice''"]
  by (simp add: join_def typing_def languageChange_def example example_db_undefined handler_defs)

end
